theory Spec2Isabelle
  imports Complex_Main
begin

section \<open>Strings\<close>

text \<open>
  The extractor works on Python \<open>str\<close> values. They are modelled as HOL strings, read
  as ASCII text: the case conversions move the 26 letters only, the decimal digits are
  \<open>0\<close> to \<open>9\<close>, and white space is the ASCII white space of \<open>str.strip\<close> (code points
  9 to 13 and 28 to 32). What Python does with the letters, digits and spaces of Unicode
  beyond ASCII is outside this model.
\<close>

definition ascii_uppercase :: string where
  "ascii_uppercase = ''ABCDEFGHIJKLMNOPQRSTUVWXYZ''"

definition ascii_lowercase :: string where
  "ascii_lowercase = ''abcdefghijklmnopqrstuvwxyz''"

definition lower_char :: "char \<Rightarrow> char" where
  "lower_char c =
     (case map_of (zip ascii_uppercase ascii_lowercase) c of Some d \<Rightarrow> d | None \<Rightarrow> c)"

definition upper_char :: "char \<Rightarrow> char" where
  "upper_char c =
     (case map_of (zip ascii_lowercase ascii_uppercase) c of Some d \<Rightarrow> d | None \<Rightarrow> c)"

definition lower :: "string \<Rightarrow> string" where
  "lower s = map lower_char s"

definition upper :: "string \<Rightarrow> string" where
  "upper s = map upper_char s"

section \<open>Font classification: \<open>_process_fonts\<close>\<close>

definition generic_fonts :: "string list" where
  "generic_fonts =
     [''serif'', ''sans-serif'', ''monospace'', ''cursive'', ''fantasy'', ''system-ui'']"

definition system_fonts :: "string list" where
  "system_fonts =
     [''Arial'', ''Helvetica'', ''Times'', ''Courier'', ''Verdana'', ''Georgia'',
      ''Palatino'', ''Garamond'', ''Bookman'', ''Comic Sans MS'', ''Trebuchet MS'',
      ''Arial Black'', ''Impact'']"

text \<open>
  One turn of the loop \<open>for font in fonts\<close>: the state is the pair
  \<open>(custom_fonts, fallback_fonts)\<close>, and \<open>append\<close> adds at the end.
\<close>

definition classify_step :: "string list \<times> string list \<Rightarrow> string \<Rightarrow> string list \<times> string list" where
  "classify_step st font =
     (case st of (custom_fonts, fallback_fonts) \<Rightarrow>
        if lower font \<notin> set generic_fonts then
          if font \<in> set system_fonts then (custom_fonts, fallback_fonts @ [font])
          else (custom_fonts @ [font], fallback_fonts)
        else (custom_fonts, fallback_fonts))"

definition classify_loop :: "string list \<Rightarrow> string list \<times> string list" where
  "classify_loop fonts = foldl classify_step ([], []) fonts"

definition custom_fonts_of :: "string list \<Rightarrow> string list" where
  "custom_fonts_of fonts = fst (classify_loop fonts)"

definition fallback_fonts_of :: "string list \<Rightarrow> string list" where
  "fallback_fonts_of fonts = snd (classify_loop fonts)"

text \<open>
  The body of \<open>_process_fonts\<close>. No statement of it can raise on a list of strings, so
  the handler returning \<open>["Arial", "sans-serif"]\<close> is never entered; the value of the
  \<open>"fonts"\<close> entry of the returned dictionary is modelled.
\<close>

definition process_fonts :: "string list \<Rightarrow> string list" where
  "process_fonts fonts =
     (let (custom_fonts, fallback_fonts) = classify_loop fonts;
          final_fonts = (if custom_fonts \<noteq> [] then take 2 custom_fonts else take 2 fallback_fonts)
      in if length final_fonts < 2
         then take 2 (final_fonts @ [''Helvetica'', ''Arial'', ''sans-serif''])
         else final_fonts)"

section \<open>Colour normalisation: \<open>_convert_to_hex\<close>\<close>

datatype exn = ValueError | IndexError | ZeroDivisionError

definition whitespace :: string where
  "whitespace = [CHR 0x09, CHR 0x0A, CHR 0x0B, CHR 0x0C, CHR 0x0D,
                 CHR 0x1C, CHR 0x1D, CHR 0x1E, CHR 0x1F, CHR '' '']"

definition is_space :: "char \<Rightarrow> bool" where
  "is_space c = (c \<in> set whitespace)"

definition strip :: "string \<Rightarrow> string" where
  "strip s = rev (dropWhile is_space (rev (dropWhile is_space s)))"

definition startswith :: "string \<Rightarrow> string \<Rightarrow> bool" where
  "startswith s p = (take (length p) s = p)"

definition is_digit :: "char \<Rightarrow> bool" where
  "is_digit c = (c \<in> set ''0123456789'')"

text \<open>
  \<open>re.findall(r'\d+', color)\<close>: the maximal runs of decimal digits, from left to right.
\<close>

function findall_digits :: "string \<Rightarrow> string list" where
  "findall_digits [] = []"
| "findall_digits (c # cs) =
     (if is_digit c then (c # takeWhile is_digit cs) # findall_digits (dropWhile is_digit cs)
      else findall_digits cs)"
  by pat_completeness auto
termination
  by (relation "measure length") (auto simp: length_dropWhile_le less_Suc_eq_le)

definition digit_value :: "char \<Rightarrow> nat" where
  "digit_value c =
     (case map_of (zip ''0123456789abcdef'' [0, 1, 2, 3, 4, 5, 6, 7, 8, 9, 10, 11, 12, 13, 14, 15])
             (lower_char c)
      of Some v \<Rightarrow> v | None \<Rightarrow> 0)"

text \<open>
  \<open>int(numbers[i])\<close> on a run of decimal digits. Python integers are unbounded; the
  interpreter's limit on the length of a digit string is not modelled.
\<close>

definition int_of_digits :: "string \<Rightarrow> nat" where
  "int_of_digits ds = foldl (\<lambda>n c. 10 * n + digit_value c) 0 ds"

definition hex_char :: "nat \<Rightarrow> char" where
  "hex_char d = ''0123456789ABCDEF'' ! d"

text \<open>The format \<open>X\<close>: upper-case hexadecimal digits of a non-negative integer.\<close>

function format_X :: "nat \<Rightarrow> string" where
  "format_X n = (if n < 16 then [hex_char n] else format_X (n div 16) @ [hex_char (n mod 16)])"
  by pat_completeness auto
termination
  by (relation "measure id") auto

declare format_X.simps [simp del]

text \<open>The format \<open>02X\<close>: the same, padded with zeros on the left to at least two characters.\<close>

definition format_02X :: "nat \<Rightarrow> string" where
  "format_02X n = (let h = format_X n in replicate (2 - length h) CHR ''0'' @ h)"

text \<open>
  \<open>_convert_to_hex\<close>. The result \<open>None\<close> is Python's \<open>None\<close>. The table of colour names
  behind \<open>webcolors.name_to_hex\<close> belongs to a library and is the parameter \<open>names\<close>;
  \<open>names color = None\<close> stands for the \<open>ValueError\<close> of an unknown name.
\<close>

definition rgb_to_hex :: "string \<Rightarrow> string option" where
  "rgb_to_hex color =
     (if startswith color ''rgb'' then
        (let numbers = findall_digits color in
         if 3 \<le> length numbers then
           (let r = int_of_digits (numbers ! 0);
                g = int_of_digits (numbers ! 1);
                b = int_of_digits (numbers ! 2)
            in Some (CHR ''#'' # format_02X r @ format_02X g @ format_02X b))
         else None)
      else None)"

definition convert_to_hex :: "(string \<Rightarrow> string option) \<Rightarrow> string \<Rightarrow> string option" where
  "convert_to_hex names raw =
     (let color = strip raw in
      if startswith color ''#'' then Some (upper color)
      else
        (case rgb_to_hex color of
           Some hex_color \<Rightarrow> Some hex_color
         | None \<Rightarrow>
            (case names color of
               Some hex_color \<Rightarrow> Some (upper hex_color)
             | None \<Rightarrow> None)))"

text \<open>
  The format the specification gives a normalised colour: \<open>#\<close> and six upper-case
  hexadecimal digits. \<open>is_hex6\<close> is the same shape with digits of either case.
\<close>

definition is_upper_hex_digit :: "char \<Rightarrow> bool" where
  "is_upper_hex_digit c = (c \<in> set ''0123456789ABCDEF'')"

definition is_hex_digit :: "char \<Rightarrow> bool" where
  "is_hex_digit c = (c \<in> set ''0123456789abcdefABCDEF'')"

definition is_hex_color :: "string \<Rightarrow> bool" where
  "is_hex_color h =
     (case h of [] \<Rightarrow> False
      | c # ds \<Rightarrow> c = CHR ''#'' \<and> length ds = 6 \<and> list_all is_upper_hex_digit ds)"

definition is_hex6 :: "string \<Rightarrow> bool" where
  "is_hex6 h =
     (case h of [] \<Rightarrow> False
      | c # ds \<Rightarrow> c = CHR ''#'' \<and> length ds = 6 \<and> list_all is_hex_digit ds)"

text \<open>
  Python's \<open>str\<close> of a non-negative integer, for writing down the strings
  \<open>rgb(r, g, b)\<close> that a browser reports.
\<close>

function str_nat :: "nat \<Rightarrow> string" where
  "str_nat n = (if n < 10 then [hex_char n] else str_nat (n div 10) @ [hex_char (n mod 10)])"
  by pat_completeness auto
termination
  by (relation "measure id") auto

declare str_nat.simps [simp del]

text \<open>
  A small part of the table of CSS colour names, as \<open>webcolors.name_to_hex\<close> answers
  from it (the library lower-cases the name first).
\<close>

definition sample_names :: "string \<Rightarrow> string option" where
  "sample_names name =
     map_of [(''red'', ''#ff0000''), (''blue'', ''#0000ff''), (''navy'', ''#000080''),
             (''white'', ''#ffffff''), (''black'', ''#000000'')] (lower name)"

section \<open>Contrast ratio: \<open>_get_contrast_ratio\<close>\<close>

fun double_underscore :: "string \<Rightarrow> bool" where
  "double_underscore (a # b # cs) =
     ((a = CHR ''_'' \<and> b = CHR ''_'') \<or> double_underscore (b # cs))"
| "double_underscore _ = False"

text \<open>
  \<open>int(s, 16)\<close> as the interpreter parses it: white space on both sides, one optional
  sign, an optional prefix \<open>0x\<close> or \<open>0X\<close> (which one underscore may follow), then
  hexadecimal digits in groups separated by single underscores. Everything else is a
  \<open>ValueError\<close>.
\<close>

definition split_sign :: "string \<Rightarrow> int \<times> string" where
  "split_sign t =
     (case t of
        c # r \<Rightarrow> if c = CHR ''-'' then (- 1, r) else if c = CHR ''+'' then (1, r) else (1, t)
      | [] \<Rightarrow> (1, t))"

definition skip_prefix :: "string \<Rightarrow> string" where
  "skip_prefix u =
     (case u of
        c0 # c1 # r \<Rightarrow>
          if c0 = CHR ''0'' \<and> (c1 = CHR ''x'' \<or> c1 = CHR ''X'')
          then (case r of c2 # r' \<Rightarrow> if c2 = CHR ''_'' then r' else r | [] \<Rightarrow> r)
          else u
      | _ \<Rightarrow> u)"

definition is_literal_char :: "char \<Rightarrow> bool" where
  "is_literal_char c = (is_hex_digit c \<or> c = CHR ''_'')"

definition int16 :: "string \<Rightarrow> exn + int" where
  "int16 s =
     (let (sign, u) = split_sign (dropWhile is_space s);
          v = skip_prefix u;
          body = takeWhile is_literal_char v;
          rest = dropWhile is_literal_char v
      in if body = [] \<or> hd body = CHR ''_'' \<or> last body = CHR ''_'' \<or> double_underscore body
            \<or> \<not> list_all is_space rest
         then Inl ValueError
         else Inr (sign * int (foldl (\<lambda>n c. 16 * n + digit_value c) 0
                                 (filter (\<lambda>c. c \<noteq> CHR ''_'') body))))"

text \<open>
  The characters that can occur in a string accepted by \<open>int(s, 16)\<close>.
\<close>

definition literal_chars :: string where
  "literal_chars = ''0123456789abcdefABCDEF'' @ whitespace @ ''+-_xX''"

text \<open>
  The first lines of the inner function \<open>luminance\<close>: \<open>lstrip('#')\<close> and the three
  slices \<open>hex_color[i:i+2]\<close> for \<open>i\<close> in \<open>(0, 2, 4)\<close>, parsed in this order.
\<close>

definition hex_channels :: "string \<Rightarrow> exn + (int \<times> int \<times> int)" where
  "hex_channels hex_color =
     (let h = dropWhile (\<lambda>c. c = CHR ''#'') hex_color in
      case int16 (take 2 h) of Inl e \<Rightarrow> Inl e | Inr r \<Rightarrow>
     (case int16 (take 2 (drop 2 h)) of Inl e \<Rightarrow> Inl e | Inr g \<Rightarrow>
     (case int16 (take 2 (drop 4 h)) of Inl e \<Rightarrow> Inl e | Inr b \<Rightarrow> Inr (r, g, b))))"

text \<open>
  Python's floats are idealised as real numbers; \<open>**\<close> on a positive base is \<open>powr\<close>.
\<close>

definition linearize :: "real \<Rightarrow> real" where
  "linearize c = (if c \<le> 0.03928 then c / 12.92 else ((c + 0.055) / 1.055) powr 2.4)"

definition luminance :: "string \<Rightarrow> exn + real" where
  "luminance hex_color =
     (case hex_channels hex_color of
        Inl e \<Rightarrow> Inl e
      | Inr (r, g, b) \<Rightarrow>
          Inr (0.2126 * linearize (real_of_int r / 255.0)
             + 0.7152 * linearize (real_of_int g / 255.0)
             + 0.0722 * linearize (real_of_int b / 255.0)))"

text \<open>The body of the \<open>try\<close> block of \<open>_get_contrast_ratio\<close>.\<close>

definition contrast_ratio_try :: "string \<Rightarrow> string \<Rightarrow> exn + real" where
  "contrast_ratio_try color1 color2 =
     (case luminance color1 of Inl e \<Rightarrow> Inl e | Inr lum1 \<Rightarrow>
     (case luminance color2 of Inl e \<Rightarrow> Inl e | Inr lum2 \<Rightarrow>
        (let lighter = max lum1 lum2;
             darker = min lum1 lum2
         in if darker + 0.05 = 0 then Inl ZeroDivisionError
            else Inr ((lighter + 0.05) / (darker + 0.05)))))"

definition get_contrast_ratio :: "string \<Rightarrow> string \<Rightarrow> real" where
  "get_contrast_ratio color1 color2 =
     (case contrast_ratio_try color1 color2 of Inr ratio \<Rightarrow> ratio | Inl e \<Rightarrow> 1.0)"

section \<open>Frequency counting\<close>

text \<open>
  \<open>collections.Counter\<close>, a dictionary in insertion order, as an association list:
  counting an element again raises its count in place, a new element goes to the end.
\<close>

fun counter_add :: "'a \<Rightarrow> ('a \<times> nat) list \<Rightarrow> ('a \<times> nat) list" where
  "counter_add x [] = [(x, 1)]"
| "counter_add x ((y, n) # r) = (if x = y then (y, Suc n) # r else (y, n) # counter_add x r)"

definition counter :: "'a list \<Rightarrow> ('a \<times> nat) list" where
  "counter xs = foldl (\<lambda>c x. counter_add x c) [] xs"

text \<open>
  \<open>most_common(1)\<close>: the first entry holding the largest count, as Python's \<open>max\<close> finds
  it, in a list of at most one element.
\<close>

definition most_common1 :: "('a \<times> nat) list \<Rightarrow> ('a \<times> nat) list" where
  "most_common1 c =
     (case c of [] \<Rightarrow> []
      | p # ps \<Rightarrow> [foldl (\<lambda>best q. if snd best < snd q then q else best) p ps])"

definition getitem :: "'a list \<Rightarrow> nat \<Rightarrow> exn + 'a" where
  "getitem xs i = (if i < length xs then Inr (xs ! i) else Inl IndexError)"

text \<open>The truth value of an optional string: \<open>None\<close> and the empty string are false.\<close>

fun truthy :: "string option \<Rightarrow> bool" where
  "truthy None = False"
| "truthy (Some s) = (s \<noteq> [])"

text \<open>\<open>_get_most_common_color\<close>; the list may hold \<open>None\<close>.\<close>

definition get_most_common_color :: "string option list \<Rightarrow> string \<Rightarrow> exn + string" where
  "get_most_common_color color_list dflt =
     (let filtered_colors =
            filter (\<lambda>c. truthy c \<and> c \<noteq> Some ''#FFFFFF'' \<and> c \<noteq> Some ''#000000'') color_list
      in if filtered_colors = [] then Inr dflt
         else
           let color_counts = counter (map the filtered_colors) in
           if color_counts \<noteq> [] then
             (case getitem (most_common1 color_counts) 0 of
                Inl e \<Rightarrow> Inl e
              | Inr p \<Rightarrow> Inr (fst p))
           else Inr dflt)"

section \<open>Role selection: \<open>_process_colors\<close>\<close>

record brand_colors =
  primaryColor :: string
  secondaryColor :: string
  backgroundColor :: string
  linkColor :: string

text \<open>
  The argument \<open>colors\<close> is a dictionary from category names to lists of raw colour
  strings, iterated in insertion order: an association list, whose keys are distinct when
  it comes from a dictionary. \<open>colors.get(k, [])\<close> is \<open>dict_get\<close>.
\<close>

type_synonym observations = "(string \<times> string list) list"

definition dict_get :: "observations \<Rightarrow> string \<Rightarrow> string list" where
  "dict_get colors k = (case map_of colors k of Some v \<Rightarrow> v | None \<Rightarrow> [])"

text \<open>The first loop: every category in turn, keeping the truthy normalised colours.\<close>

definition all_colors :: "(string \<Rightarrow> string option) \<Rightarrow> observations \<Rightarrow> string list" where
  "all_colors names colors =
     concat (map (\<lambda>(color_type, color_list).
                    map the (filter truthy (map (convert_to_hex names) color_list))) colors)"

definition excluded_colors :: "string list" where
  "excluded_colors = [''#FFFFFF'', ''#000000'', ''#TRANSPARENT'']"

definition most_common_colors :: "(string \<Rightarrow> string option) \<Rightarrow> observations \<Rightarrow> string list" where
  "most_common_colors names colors =
     (let color_counts = counter (all_colors names colors);
          filtered_colors = filter (\<lambda>(color, count). color \<notin> set excluded_colors) color_counts
      in if filtered_colors \<noteq> [] then take 10 (map fst filtered_colors) else [''#333333''])"

definition default_colors :: brand_colors where
  "default_colors =
     \<lparr>primaryColor = ''#333333'', secondaryColor = ''#666666'',
      backgroundColor = ''#FFFFFF'', linkColor = ''#0066CC''\<rparr>"

text \<open>The body of the \<open>try\<close> block of \<open>_process_colors\<close>.\<close>

definition process_colors_try :: "(string \<Rightarrow> string option) \<Rightarrow> observations \<Rightarrow> exn + brand_colors" where
  "process_colors_try names colors =
     (let most_common = most_common_colors names colors;
          background_colors = map (convert_to_hex names) (dict_get colors ''backgroundColors'');
          link_colors = map (convert_to_hex names) (dict_get colors ''linkColors'')
      in case get_most_common_color background_colors ''#FFFFFF'' of Inl e \<Rightarrow> Inl e | Inr bg_color \<Rightarrow>
        (case get_most_common_color link_colors ''#0066CC'' of Inl e \<Rightarrow> Inl e | Inr link_color \<Rightarrow>
        (case (if most_common \<noteq> [] then getitem most_common 0 else Inr ''#333333'') of
           Inl e \<Rightarrow> Inl e | Inr primary_color \<Rightarrow>
        (case (if 1 < length most_common then getitem most_common 1 else Inr ''#666666'') of
           Inl e \<Rightarrow> Inl e | Inr secondary_color \<Rightarrow>
         Inr \<lparr>primaryColor = primary_color,
              secondaryColor =
                (if get_contrast_ratio secondary_color bg_color < 3
                 then (if bg_color \<noteq> ''#333333'' then ''#333333'' else ''#FFFFFF'')
                 else secondary_color),
              backgroundColor = bg_color,
              linkColor = link_color\<rparr>))))"

text \<open>\<open>_process_colors\<close>: the \<open>except\<close> branch returns the default colours.\<close>

definition process_colors :: "(string \<Rightarrow> string option) \<Rightarrow> observations \<Rightarrow> brand_colors" where
  "process_colors names colors =
     (case process_colors_try names colors of Inr result \<Rightarrow> result | Inl e \<Rightarrow> default_colors)"

text \<open>
  The colours that normalisation gives for the raw strings of the input, in any category,
  and the four constants of \<open>_process_colors\<close>.
\<close>

definition normalized_inputs :: "(string \<Rightarrow> string option) \<Rightarrow> observations \<Rightarrow> string set" where
  "normalized_inputs names colors =
     set (List.map_filter (convert_to_hex names) (concat (map snd colors)))"

definition fixed_colors :: "string list" where
  "fixed_colors = [''#333333'', ''#666666'', ''#FFFFFF'', ''#0066CC'']"

section \<open>Properties of font classification\<close>

lemma classify_foldl:
  "foldl classify_step (cs, fs) fonts =
     (cs @ filter (\<lambda>f. lower f \<notin> set generic_fonts \<and> f \<notin> set system_fonts) fonts,
      fs @ filter (\<lambda>f. lower f \<notin> set generic_fonts \<and> f \<in> set system_fonts) fonts)"
  by (induction fonts arbitrary: cs fs) (simp_all add: classify_step_def)

lemma custom_fonts_filter:
  "custom_fonts_of fonts =
     filter (\<lambda>f. lower f \<notin> set generic_fonts \<and> f \<notin> set system_fonts) fonts"
  by (simp add: custom_fonts_of_def classify_loop_def classify_foldl)

lemma fallback_fonts_filter:
  "fallback_fonts_of fonts =
     filter (\<lambda>f. lower f \<notin> set generic_fonts \<and> f \<in> set system_fonts) fonts"
  by (simp add: fallback_fonts_of_def classify_loop_def classify_foldl)

lemmas case_defs = lower_def lower_char_def upper_def upper_char_def
  ascii_uppercase_def ascii_lowercase_def

lemmas font_defs = process_fonts_def classify_loop_def classify_step_def custom_fonts_of_def
  fallback_fonts_of_def generic_fonts_def system_fonts_def

text \<open>
  Claim C2, as the specification's scenario states it, does not hold: on the list
  \<open>["Inter", "Arial", "sans-serif", "Arial"]\<close> the fallback bucket is not \<open>["Arial"]\<close>
  and the selection is not \<open>["Inter", "Arial"]\<close>.
\<close>

theorem font_scenario_counterexample:
  "\<not> (custom_fonts_of [''Inter'', ''Arial'', ''sans-serif'', ''Arial''] = [''Inter'']
      \<and> fallback_fonts_of [''Inter'', ''Arial'', ''sans-serif'', ''Arial''] = [''Arial'']
      \<and> process_fonts [''Inter'', ''Arial'', ''sans-serif'', ''Arial''] = [''Inter'', ''Arial''])"
  by (simp add: font_defs case_defs)

text \<open>
  Claim C2, amended: on the list \<open>["Inter", "Arial", "sans-serif", "Arial"]\<close> the keyword
  \<open>sans-serif\<close> is skipped, the custom bucket is \<open>["Inter"]\<close>, the fallback bucket keeps
  both occurrences, \<open>["Arial", "Arial"]\<close>, and, a custom font being present, the selection
  is the custom bucket padded from the constants: \<open>["Inter", "Helvetica"]\<close>.
\<close>

theorem font_scenario:
  "custom_fonts_of [''Inter'', ''Arial'', ''sans-serif'', ''Arial''] = [''Inter'']
   \<and> fallback_fonts_of [''Inter'', ''Arial'', ''sans-serif'', ''Arial''] = [''Arial'', ''Arial'']
   \<and> process_fonts [''Inter'', ''Arial'', ''sans-serif'', ''Arial''] = [''Inter'', ''Helvetica'']"
  by (simp add: font_defs case_defs)

text \<open>
  Claim C8: for every list of font names, the empty one included, font classification
  returns exactly two names.
\<close>

theorem process_fonts_length: "length (process_fonts fonts) = 2"
  by (simp add: process_fonts_def Let_def split: prod.splits)

text \<open>
  Claim C10: the generic keywords are compared with the lower-cased name and the system
  fonts with the name as it is spelled. A name of the input whose lower-case form is no
  generic keyword and whose exact spelling is no system font goes to the custom bucket
  (and not to the fallback bucket); so \<open>["arial"]\<close> yields \<open>["arial", "Helvetica"]\<close>.
\<close>

theorem custom_bucket_case_sensitive:
  assumes "font \<in> set fonts" and "lower font \<notin> set generic_fonts" and "font \<notin> set system_fonts"
  shows "font \<in> set (custom_fonts_of fonts) \<and> font \<notin> set (fallback_fonts_of fonts)
         \<and> process_fonts [''arial''] = [''arial'', ''Helvetica'']"
proof -
  have "process_fonts [''arial''] = [''arial'', ''Helvetica'']"
    by (simp add: font_defs case_defs)
  with assms show ?thesis
    by (simp add: custom_fonts_filter fallback_fonts_filter)
qed

theorem custom_bucket_case_sensitive_witness:
  "''arial'' \<in> set [''arial'', ''Arial'', ''Sans-Serif'']
   \<and> lower ''arial'' \<notin> set generic_fonts \<and> ''arial'' \<notin> set system_fonts
   \<and> ''arial'' \<in> set (custom_fonts_of [''arial'', ''Arial'', ''Sans-Serif''])
   \<and> custom_fonts_of [''arial'', ''Arial'', ''Sans-Serif''] = [''arial'']
   \<and> fallback_fonts_of [''arial'', ''Arial'', ''Sans-Serif''] = [''Arial'']"
proof -
  have a: "''arial'' \<in> set [''arial'', ''Arial'', ''Sans-Serif'']" by simp
  have b: "lower ''arial'' \<notin> set generic_fonts" by (simp add: generic_fonts_def case_defs)
  have c: "''arial'' \<notin> set system_fonts" by (simp add: system_fonts_def)
  have d: "custom_fonts_of [''arial'', ''Arial'', ''Sans-Serif''] = [''arial'']"
    by (simp add: font_defs case_defs)
  have e: "fallback_fonts_of [''arial'', ''Arial'', ''Sans-Serif''] = [''Arial'']"
    by (simp add: font_defs case_defs)
  from custom_bucket_case_sensitive [OF a b c] a b c d e show ?thesis by blast
qed

section \<open>Evaluation of the recursive functions\<close>

lemma format_X_small: "n < 16 \<Longrightarrow> format_X n = [hex_char n]"
  by (simp add: format_X.simps)

lemma format_X_large: "\<not> n < 16 \<Longrightarrow> format_X n = format_X (n div 16) @ [hex_char (n mod 16)]"
  by (subst format_X.simps) simp

lemma str_nat_small: "n < 10 \<Longrightarrow> str_nat n = [hex_char n]"
  by (simp add: str_nat.simps)

lemma str_nat_large: "\<not> n < 10 \<Longrightarrow> str_nat n = str_nat (n div 10) @ [hex_char (n mod 10)]"
  by (subst str_nat.simps) simp

lemmas norm_defs = convert_to_hex_def rgb_to_hex_def strip_def is_space_def whitespace_def
  startswith_def is_digit_def int_of_digits_def digit_value_def format_02X_def hex_char_def
  format_X_small format_X_large lower_char_def ascii_uppercase_def ascii_lowercase_def

section \<open>Properties of colour processing\<close>

subsection \<open>Counting\<close>

lemma keys_counter_add: "fst ` set (counter_add x c) = insert x (fst ` set c)"
proof (induction c)
  case Nil
  show ?case by simp
next
  case (Cons p c)
  obtain y n where p: "p = (y, n)" by (cases p)
  show ?case
    by (cases "x = y") (simp_all add: p Cons.IH insert_commute insert_absorb)
qed

lemma counter_add_not_Nil: "counter_add x c \<noteq> []"
  by (cases c) (auto split: if_splits)

lemma keys_foldl_counter_add:
  "fst ` set (foldl (\<lambda>c x. counter_add x c) c0 xs) = fst ` set c0 \<union> set xs"
  by (induction xs arbitrary: c0) (simp_all add: keys_counter_add)

lemma keys_counter: "fst ` set (counter xs) = set xs"
  by (simp add: counter_def keys_foldl_counter_add)

lemma foldl_counter_add_not_Nil:
  "c0 \<noteq> [] \<or> xs \<noteq> [] \<Longrightarrow> foldl (\<lambda>c x. counter_add x c) c0 xs \<noteq> []"
  by (induction xs arbitrary: c0) (auto simp: counter_add_not_Nil)

lemma counter_Nil_iff: "counter xs = [] \<longleftrightarrow> xs = []"
  using foldl_counter_add_not_Nil [of "[]" xs] by (auto simp: counter_def)

lemma foldl_best_mem:
  "foldl (\<lambda>best q. if snd best < snd q then q else best) p ps \<in> set (p # ps)"
proof (induction ps arbitrary: p)
  case Nil
  show ?case by simp
next
  case (Cons q ps)
  show ?case
    using Cons.IH [of "if snd p < snd q then q else p"] by (auto split: if_splits)
qed

lemma most_common1_cases:
  "c \<noteq> [] \<Longrightarrow> \<exists>p. most_common1 c = [p] \<and> p \<in> set c"
proof (cases c)
  case Nil
  assume "c \<noteq> []"
  with Nil show ?thesis by simp
next
  case (Cons p ps)
  with foldl_best_mem [of p ps] show ?thesis by (simp add: most_common1_def)
qed

subsection \<open>Most common colour of a category\<close>

lemma get_most_common_color_cases:
  "\<exists>x. get_most_common_color l d = Inr x \<and> (x = d \<or> (Some x \<in> set l \<and> x \<noteq> []))"
proof -
  let ?f = "filter (\<lambda>c. truthy c \<and> c \<noteq> Some ''#FFFFFF'' \<and> c \<noteq> Some ''#000000'') l"
  show ?thesis
  proof (cases "?f = []")
    case True
    then show ?thesis by (simp add: get_most_common_color_def)
  next
    case False
    then have ne: "counter (map the ?f) \<noteq> []" by (simp add: counter_Nil_iff)
    then obtain p where p: "most_common1 (counter (map the ?f)) = [p]"
      and mem: "p \<in> set (counter (map the ?f))"
      using most_common1_cases by blast
    from mem have "fst p \<in> fst ` set (counter (map the ?f))" by (rule imageI)
    then have "fst p \<in> set (map the ?f)" by (simp only: keys_counter)
    then obtain c where c: "c \<in> set ?f" and fp: "fst p = the c" by auto
    from c have "truthy c" and cl: "c \<in> set l" by auto
    then obtain s where s: "c = Some s" and "s \<noteq> []" by (cases c) auto
    with fp cl have "Some (fst p) \<in> set l" "fst p \<noteq> []" by auto
    moreover have "get_most_common_color l d = Inr (fst p)"
      using False ne p by (simp add: get_most_common_color_def getitem_def)
    ultimately show ?thesis by blast
  qed
qed

lemma get_most_common_color_total:
  "get_most_common_color l d = Inr (projr (get_most_common_color l d))"
  using get_most_common_color_cases [of l d] by auto

subsection \<open>Ranked list\<close>

lemma most_common_colors_not_Nil: "most_common_colors names colors \<noteq> []"
  by (auto simp: most_common_colors_def Let_def)

lemma process_colors_try_eq:
  "process_colors_try names colors =
     (let most_common = most_common_colors names colors;
          bg_color = projr (get_most_common_color
                       (map (convert_to_hex names) (dict_get colors ''backgroundColors'')) ''#FFFFFF'');
          link_color = projr (get_most_common_color
                       (map (convert_to_hex names) (dict_get colors ''linkColors'')) ''#0066CC'');
          secondary_color = (if 1 < length most_common then most_common ! 1 else ''#666666'')
      in Inr \<lparr>primaryColor = most_common ! 0,
              secondaryColor =
                (if get_contrast_ratio secondary_color bg_color < 3
                 then (if bg_color \<noteq> ''#333333'' then ''#333333'' else ''#FFFFFF'')
                 else secondary_color),
              backgroundColor = bg_color,
              linkColor = link_color\<rparr>)"
proof -
  have a: "get_most_common_color l d = Inr (projr (get_most_common_color l d))" for l d
    by (rule get_most_common_color_total)
  have b: "0 < length (most_common_colors names colors)"
    using most_common_colors_not_Nil [of names colors] by simp
  show ?thesis
    unfolding process_colors_try_def Let_def
    apply (subst a [of "map (convert_to_hex names) (dict_get colors ''backgroundColors'')"])
    apply (subst a [of "map (convert_to_hex names) (dict_get colors ''linkColors'')"])
    using b by (simp add: getitem_def most_common_colors_not_Nil)
qed

subsection \<open>Contrast of particular colours\<close>

lemmas parse_defs = hex_channels_def int16_def split_sign_def skip_prefix_def is_literal_char_def
  is_space_def whitespace_def is_hex_digit_def
  digit_value_def lower_char_def ascii_uppercase_def ascii_lowercase_def

lemma channels_666666: "hex_channels ''#666666'' = Inr (102, 102, 102)"
  by (simp add: parse_defs)

lemma channels_FFFFFF: "hex_channels ''#FFFFFF'' = Inr (255, 255, 255)"
  by (simp add: parse_defs)

lemma channels_FFFFFFFF: "hex_channels ''#FFFFFFFF'' = Inr (255, 255, 255)"
  by (simp add: parse_defs)

lemma channels_000000: "hex_channels ''#000000'' = Inr (0, 0, 0)"
  by (simp add: parse_defs)


lemma linearize_one: "linearize 1 = 1"
  by (simp add: linearize_def)

lemma linearize_zero: "linearize 0 = 0"
  by (simp add: linearize_def)

lemma lum_white: "luminance ''#FFFFFF'' = Inr 1"
  by (simp add: luminance_def channels_FFFFFF linearize_one)

lemma lum_white8: "luminance ''#FFFFFFFF'' = Inr 1"
  by (simp add: luminance_def channels_FFFFFFFF linearize_one)

lemma lum_black: "luminance ''#000000'' = Inr 0"
  by (simp add: luminance_def channels_000000 linearize_zero)

lemma contrast_white8_black: "get_contrast_ratio ''#FFFFFFFF'' ''#000000'' = 21"
  by (simp add: get_contrast_ratio_def contrast_ratio_try_def lum_white8 lum_black)

lemma lin_grey: "linearize (102 / 255) \<le> 3 / 10" "0 \<le> linearize (102 / 255)"
proof -
  let ?x = "(102 / 255 + 0.055) / 1.055 :: real"
  have x: "0 < ?x" "?x \<le> 1" by simp_all
  have "linearize (102 / 255) = ?x powr 2.4" by (simp add: linearize_def)
  also have "\<dots> \<le> ?x powr 2" using x by (intro powr_mono') simp_all
  also have "\<dots> = ?x ^ 2" using x by (simp add: powr_numeral)
  also have "\<dots> \<le> 3 / 10" by (simp add: power2_eq_square)
  finally show "linearize (102 / 255) \<le> 3 / 10" .
  show "0 \<le> linearize (102 / 255)" by (simp add: linearize_def)
qed

lemma lum_grey: "\<exists>l. luminance ''#666666'' = Inr l \<and> 0 \<le> l \<and> l \<le> 3 / 10"
  using lin_grey by (simp add: luminance_def channels_666666)

lemma default_contrast: "\<not> get_contrast_ratio ''#666666'' ''#FFFFFF'' < 3"
proof -
  obtain l where l: "luminance ''#666666'' = Inr l" "0 \<le> l" "l \<le> 3 / 10"
    using lum_grey by blast
  then show ?thesis
    by (simp add: get_contrast_ratio_def contrast_ratio_try_def lum_white max_def min_def field_simps)
qed

subsection \<open>The result of role selection\<close>

lemma process_colors_eq:
  "process_colors names colors =
     (let most_common = most_common_colors names colors;
          bg_color = projr (get_most_common_color
                       (map (convert_to_hex names) (dict_get colors ''backgroundColors'')) ''#FFFFFF'');
          link_color = projr (get_most_common_color
                       (map (convert_to_hex names) (dict_get colors ''linkColors'')) ''#0066CC'');
          secondary_color = (if 1 < length most_common then most_common ! 1 else ''#666666'')
      in \<lparr>primaryColor = most_common ! 0,
           secondaryColor =
             (if get_contrast_ratio secondary_color bg_color < 3
              then (if bg_color \<noteq> ''#333333'' then ''#333333'' else ''#FFFFFF'')
              else secondary_color),
           backgroundColor = bg_color,
           linkColor = link_color\<rparr>)"
  by (simp add: process_colors_def process_colors_try_eq Let_def)

text \<open>
  Claim C4: with the secondary colour chosen from the ranked list (its second entry, or
  \<open>#666666\<close> when there is none) and the background colour of the result, the returned
  secondary colour is the chosen one when the contrast ratio of the two is at least 3;
  below 3 it is \<open>#333333\<close>, unless the background is \<open>#333333\<close>, and then \<open>#FFFFFF\<close>.
\<close>

theorem secondary_legibility_override:
  "(let ranked = most_common_colors names colors;
        chosen = (if 1 < length ranked then ranked ! 1 else ''#666666'');
        result = process_colors names colors;
        bg = backgroundColor result
    in secondaryColor result =
         (if get_contrast_ratio chosen bg < 3
          then (if bg = ''#333333'' then ''#FFFFFF'' else ''#333333'')
          else chosen))"
  by (simp add: process_colors_eq Let_def)

subsection \<open>Provenance\<close>

lemma normalized_inputsI:
  "raw \<in> set (concat (map snd colors)) \<Longrightarrow> convert_to_hex names raw = Some h
    \<Longrightarrow> h \<in> normalized_inputs names colors"
  unfolding normalized_inputs_def List.map_filter_def by force

lemma all_colors_subset: "set (all_colors names colors) \<subseteq> normalized_inputs names colors"
proof
  fix h assume "h \<in> set (all_colors names colors)"
  then obtain k cs o' where kc: "(k, cs) \<in> set colors"
    and o': "o' \<in> set (map (convert_to_hex names) cs)" "truthy o'" "h = the o'"
    by (auto simp: all_colors_def)
  then obtain raw where raw: "raw \<in> set cs" "convert_to_hex names raw = Some h"
    by (cases o') auto
  from kc raw(1) have "raw \<in> set (concat (map snd colors))" by force
  with raw(2) show "h \<in> normalized_inputs names colors"
    by (blast intro: normalized_inputsI)
qed

lemma most_common_colors_subset:
  "set (most_common_colors names colors) \<subseteq> set (all_colors names colors) \<union> {''#333333''}"
proof -
  have "set (take 10 (map fst (filter P (counter xs)))) \<subseteq> set xs" for P and xs :: "string list"
  proof -
    have "set (take 10 (map fst (filter P (counter xs)))) \<subseteq> fst ` set (counter xs)"
      using set_take_subset [of 10 "map fst (filter P (counter xs))"] by auto
    then show ?thesis by (simp only: keys_counter)
  qed
  then show ?thesis by (auto simp: most_common_colors_def Let_def)
qed

lemma dict_get_subset: "set (dict_get colors k) \<subseteq> set (concat (map snd colors))"
proof (cases "map_of colors k")
  case None
  then show ?thesis by (simp add: dict_get_def)
next
  case (Some v)
  then have "(k, v) \<in> set colors" by (rule map_of_SomeD)
  then have "set v \<subseteq> set (concat (map snd colors))" by force
  with Some show ?thesis by (simp add: dict_get_def)
qed

lemma category_color_provenance:
  "projr (get_most_common_color (map (convert_to_hex names) (dict_get colors k)) d)
     \<in> normalized_inputs names colors \<union> {d}"
proof -
  let ?l = "map (convert_to_hex names) (dict_get colors k)"
  obtain x where x: "get_most_common_color ?l d = Inr x" "x = d \<or> Some x \<in> set ?l"
    using get_most_common_color_cases [of ?l d] by blast
  show ?thesis
  proof (cases "x = d")
    case True
    with x show ?thesis by simp
  next
    case False
    with x obtain raw where "raw \<in> set (dict_get colors k)" "convert_to_hex names raw = Some x"
      by auto
    then have "x \<in> normalized_inputs names colors"
      using dict_get_subset [of colors k] by (blast intro: normalized_inputsI)
    with x show ?thesis by simp
  qed
qed

text \<open>
  Claim C9: each of the four role colours returned by \<open>_process_colors\<close> is the
  normalisation of one of the raw strings of the input or one of the constants
  \<open>#333333\<close>, \<open>#666666\<close>, \<open>#FFFFFF\<close>, \<open>#0066CC\<close>.
\<close>

theorem role_colors_provenance:
  "primaryColor (process_colors names colors) \<in> normalized_inputs names colors \<union> set fixed_colors
   \<and> secondaryColor (process_colors names colors) \<in> normalized_inputs names colors \<union> set fixed_colors
   \<and> backgroundColor (process_colors names colors) \<in> normalized_inputs names colors \<union> set fixed_colors
   \<and> linkColor (process_colors names colors) \<in> normalized_inputs names colors \<union> set fixed_colors"
proof -
  let ?mc = "most_common_colors names colors"
  let ?S = "normalized_inputs names colors \<union> set fixed_colors"
  have mc: "set ?mc \<subseteq> ?S"
    using most_common_colors_subset [of names colors] all_colors_subset [of names colors]
    by (auto simp: fixed_colors_def)
  have "?mc \<noteq> []" by (rule most_common_colors_not_Nil)
  then have p: "?mc ! 0 \<in> ?S" using mc nth_mem [of 0 ?mc] by blast
  have s: "1 < length ?mc \<Longrightarrow> ?mc ! 1 \<in> ?S" using mc nth_mem [of 1 ?mc] by blast
  have bg: "projr (get_most_common_color
              (map (convert_to_hex names) (dict_get colors ''backgroundColors'')) ''#FFFFFF'') \<in> ?S"
    using category_color_provenance [of names colors "''backgroundColors''" "''#FFFFFF''"]
    by (auto simp: fixed_colors_def)
  have lk: "projr (get_most_common_color
              (map (convert_to_hex names) (dict_get colors ''linkColors'')) ''#0066CC'') \<in> ?S"
    using category_color_provenance [of names colors "''linkColors''" "''#0066CC''"]
    by (auto simp: fixed_colors_def)
  have c: "''#333333'' \<in> ?S" "''#666666'' \<in> ?S" "''#FFFFFF'' \<in> ?S"
    by (simp_all add: fixed_colors_def)
  show ?thesis
    unfolding process_colors_eq Let_def using p s bg lk c by simp
qed

subsection \<open>Ranking and defaults\<close>

lemmas count_defs = all_colors_def counter_def most_common_colors_def excluded_colors_def

lemma convert_rgb17: "convert_to_hex names ''rgb(17, 17, 17)'' = Some ''#111111''"
  by (simp add: norm_defs)

lemma convert_rgb34: "convert_to_hex names ''rgb(34, 34, 34)'' = Some ''#222222''"
  by (simp add: norm_defs)

text \<open>
  Claim C1 fails on the code: \<open>most_common\<close> is the first ten keys of the filtered
  counter in insertion order, and the counts are not consulted. On three text colours,
  \<open>rgb(17, 17, 17)\<close> once and then \<open>rgb(34, 34, 34)\<close> twice, the counter holds
  \<open>#111111\<close> with count 1 before \<open>#222222\<close> with count 2, the ranked list is
  \<open>["#111111", "#222222"]\<close> and the primary colour is \<open>#111111\<close>, the less frequent
  of the two.
\<close>

theorem ranking_keeps_first_seen_order:
  "counter (all_colors names
      [(''textColors'', [''rgb(17, 17, 17)'', ''rgb(34, 34, 34)'', ''rgb(34, 34, 34)'']),
       (''backgroundColors'', []), (''borderColors'', []), (''linkColors'', [])])
     = [(''#111111'', 1), (''#222222'', 2)]
   \<and> most_common_colors names
      [(''textColors'', [''rgb(17, 17, 17)'', ''rgb(34, 34, 34)'', ''rgb(34, 34, 34)'']),
       (''backgroundColors'', []), (''borderColors'', []), (''linkColors'', [])]
     = [''#111111'', ''#222222'']
   \<and> primaryColor (process_colors names
      [(''textColors'', [''rgb(17, 17, 17)'', ''rgb(34, 34, 34)'', ''rgb(34, 34, 34)'']),
       (''backgroundColors'', []), (''borderColors'', []), (''linkColors'', [])])
     = ''#111111''"
  by (simp add: process_colors_eq Let_def count_defs convert_rgb17 convert_rgb34)

lemma all_colors_unparseable:
  assumes "\<forall>raw \<in> set (concat (map snd colors)). convert_to_hex names raw = None"
  shows "all_colors names colors = []"
proof -
  have "filter truthy (map (convert_to_hex names) cs) = []" if "(k, cs) \<in> set colors" for k cs
  proof -
    have "\<forall>raw \<in> set cs. convert_to_hex names raw = None" using assms that by force
    then show ?thesis by (auto simp: filter_empty_conv)
  qed
  then show ?thesis by (auto simp: all_colors_def)
qed

lemma category_unparseable:
  assumes "\<forall>raw \<in> set (concat (map snd colors)). convert_to_hex names raw = None"
  shows "get_most_common_color (map (convert_to_hex names) (dict_get colors k)) d = Inr d"
proof -
  have "\<forall>raw \<in> set (dict_get colors k). convert_to_hex names raw = None"
    using assms dict_get_subset [of colors k] by blast
  then have "filter (\<lambda>c. truthy c \<and> c \<noteq> Some ''#FFFFFF'' \<and> c \<noteq> Some ''#000000'')
               (map (convert_to_hex names) (dict_get colors k)) = []"
    by (auto simp: filter_empty_conv)
  then show ?thesis by (simp add: get_most_common_color_def)
qed

text \<open>
  Claim C5: the \<open>try\<close> block of \<open>_process_colors\<close> raises on no input, so the function
  returns what the block computes (the handler would return the default colours); and
  when normalisation gives \<open>None\<close> for every raw string of the input, or there is none,
  the result is the default set: primary \<open>#333333\<close>, secondary \<open>#666666\<close>, background
  \<open>#FFFFFF\<close>, link \<open>#0066CC\<close>.
\<close>

theorem unparseable_gives_defaults:
  "(\<exists>result. process_colors_try names colors = Inr result)
   \<and> (list_all (\<lambda>raw. convert_to_hex names raw = None) (concat (map snd colors))
        \<longrightarrow> process_colors names colors = default_colors)"
proof
  show "\<exists>result. process_colors_try names colors = Inr result"
    by (simp add: process_colors_try_eq Let_def)
next
  show "list_all (\<lambda>raw. convert_to_hex names raw = None) (concat (map snd colors))
        \<longrightarrow> process_colors names colors = default_colors"
  proof
    assume "list_all (\<lambda>raw. convert_to_hex names raw = None) (concat (map snd colors))"
    then have un: "\<forall>raw \<in> set (concat (map snd colors)). convert_to_hex names raw = None"
      by (simp add: list_all_iff)
    have mc: "most_common_colors names colors = [''#333333'']"
      by (simp add: most_common_colors_def all_colors_unparseable [OF un] counter_def)
    show "process_colors names colors = default_colors"
      by (simp add: process_colors_eq Let_def mc category_unparseable [OF un]
            default_contrast default_colors_def)
  qed
qed

theorem unparseable_gives_defaults_witness:
  "list_all (\<lambda>raw. convert_to_hex sample_names raw = None)
     (concat (map snd [(''textColors'', [''transparent'', ''currentcolor'']),
                       (''backgroundColors'', []), (''borderColors'', [''rgb(1, 2)'']),
                       (''linkColors'', [''inherit''])]))
   \<and> process_colors sample_names
        [(''textColors'', [''transparent'', ''currentcolor'']),
         (''backgroundColors'', []), (''borderColors'', [''rgb(1, 2)'']),
         (''linkColors'', [''inherit''])] = default_colors"
proof -
  have h: "list_all (\<lambda>raw. convert_to_hex sample_names raw = None)
     (concat (map snd [(''textColors'', [''transparent'', ''currentcolor'']),
                       (''backgroundColors'', []), (''borderColors'', [''rgb(1, 2)'']),
                       (''linkColors'', [''inherit''])]))"
    by (simp add: norm_defs sample_names_def case_defs)
  with unparseable_gives_defaults [of sample_names
        "[(''textColors'', [''transparent'', ''currentcolor'']),
          (''backgroundColors'', []), (''borderColors'', [''rgb(1, 2)'']),
          (''linkColors'', [''inherit''])]"]
  show ?thesis by blast
qed

subsection \<open>Examples of role selection\<close>

text \<open>
  The scenario of the specification (the secondary colour is legible and kept), and two
  inputs on which it is overridden: the second ranked colour \<open>#ABC\<close> does not parse, so
  the ratio is 1.
\<close>

lemma channels_0000FF: "hex_channels ''#0000FF'' = Inr (0, 0, 255)"
  by (simp add: parse_defs)

lemma channels_ABC: "hex_channels ''#ABC'' = Inl ValueError"
  by (simp add: parse_defs)

lemma contrast_blue_white: "get_contrast_ratio ''#0000FF'' ''#FFFFFF'' = 1.05 / 0.1222"
  by (simp add: get_contrast_ratio_def contrast_ratio_try_def luminance_def channels_0000FF
        channels_FFFFFF linearize_one linearize_zero)

lemma contrast_ABC: "get_contrast_ratio ''#ABC'' c = 1"
  by (simp add: get_contrast_ratio_def contrast_ratio_try_def luminance_def channels_ABC)

lemmas role_defs = process_colors_eq Let_def count_defs get_most_common_color_def dict_get_def
  most_common1_def getitem_def

lemma scenario_kept:
  "process_colors names
     [(''textColors'', [''rgb(255,0,0)'', ''rgb(255,0,0)'']),
      (''backgroundColors'', [''rgb(255,255,255)'']), (''borderColors'', []),
      (''linkColors'', [''#0000FF''])]
   = \<lparr>primaryColor = ''#FF0000'', secondaryColor = ''#0000FF'',
      backgroundColor = ''#FFFFFF'', linkColor = ''#0000FF''\<rparr>"
proof -
  have c: "convert_to_hex names ''rgb(255,0,0)'' = Some ''#FF0000''"
    "convert_to_hex names ''rgb(255,255,255)'' = Some ''#FFFFFF''"
    "convert_to_hex names ''#0000FF'' = Some ''#0000FF''"
    by (simp_all add: norm_defs upper_def upper_char_def)
  show ?thesis by (simp add: role_defs c contrast_blue_white)
qed

lemma scenario_overridden:
  "process_colors names
     [(''textColors'', [''#111111'', ''#abc'']), (''backgroundColors'', []),
      (''borderColors'', []), (''linkColors'', [])]
   = \<lparr>primaryColor = ''#111111'', secondaryColor = ''#333333'',
      backgroundColor = ''#FFFFFF'', linkColor = ''#0066CC''\<rparr>"
  "process_colors names
     [(''textColors'', [''#111111'', ''#abc'']), (''backgroundColors'', [''#333333'']),
      (''borderColors'', []), (''linkColors'', [])]
   = \<lparr>primaryColor = ''#111111'', secondaryColor = ''#FFFFFF'',
      backgroundColor = ''#333333'', linkColor = ''#0066CC''\<rparr>"
proof -
  have c: "convert_to_hex names ''#111111'' = Some ''#111111''"
    "convert_to_hex names ''#abc'' = Some ''#ABC''"
    "convert_to_hex names ''#333333'' = Some ''#333333''"
    by (simp_all add: norm_defs upper_def upper_char_def)
  show "process_colors names
     [(''textColors'', [''#111111'', ''#abc'']), (''backgroundColors'', []),
      (''borderColors'', []), (''linkColors'', [])]
   = \<lparr>primaryColor = ''#111111'', secondaryColor = ''#333333'',
      backgroundColor = ''#FFFFFF'', linkColor = ''#0066CC''\<rparr>"
    by (simp add: role_defs c contrast_ABC)
  show "process_colors names
     [(''textColors'', [''#111111'', ''#abc'']), (''backgroundColors'', [''#333333'']),
      (''borderColors'', []), (''linkColors'', [])]
   = \<lparr>primaryColor = ''#111111'', secondaryColor = ''#FFFFFF'',
      backgroundColor = ''#333333'', linkColor = ''#0066CC''\<rparr>"
    by (simp add: role_defs c contrast_ABC)
qed

subsection \<open>The fail-safe of the contrast ratio\<close>


lemma int16_Nil: "int16 [] = Inl ValueError"
  by (simp add: int16_def split_sign_def skip_prefix_def)

lemma hex_channels_short:
  assumes "length (dropWhile (\<lambda>c. c = CHR ''#'') hex_color) < 5"
  shows "isl (hex_channels hex_color)"
proof -
  from assms have "take 2 (drop 4 (dropWhile (\<lambda>c. c = CHR ''#'') hex_color)) = []" by simp
  then show ?thesis
    by (simp add: hex_channels_def Let_def int16_Nil split: sum.splits)
qed

lemma mem_dropWhile:
  assumes "c \<in> set xs" and "\<not> P c"
  shows "c \<in> set (dropWhile P xs)"
proof -
  have "set xs = set (takeWhile P xs) \<union> set (dropWhile P xs)"
    by (metis set_append takeWhile_dropWhile_id)
  moreover have "c \<notin> set (takeWhile P xs)" using assms(2) by (auto dest: set_takeWhileD)
  ultimately show ?thesis using assms(1) by blast
qed

lemma mem_split_sign:
  "c \<in> set t \<Longrightarrow> c \<noteq> CHR ''-'' \<Longrightarrow> c \<noteq> CHR ''+'' \<Longrightarrow> c \<in> set (snd (split_sign t))"
  by (cases t) (auto simp: split_sign_def)

lemma mem_skip_prefix:
  assumes "c \<in> set u" and "c \<noteq> CHR ''0''" and "c \<noteq> CHR ''x''" and "c \<noteq> CHR ''X''"
    and "c \<noteq> CHR ''_''"
  shows "c \<in> set (skip_prefix u)"
proof (cases u)
  case Nil
  with assms show ?thesis by simp
next
  case u: (Cons c0 u1)
  show ?thesis
  proof (cases u1)
    case Nil
    with u assms show ?thesis by (simp add: skip_prefix_def)
  next
    case u1: (Cons c1 r)
    show ?thesis
    proof (cases "c0 = CHR ''0'' \<and> (c1 = CHR ''x'' \<or> c1 = CHR ''X'')")
      case False
      with u u1 assms(1) show ?thesis by (auto simp: skip_prefix_def)
    next
      case True
      with u u1 assms have cr: "c \<in> set r" by auto
      show ?thesis
      proof (cases r)
        case Nil
        with cr show ?thesis by simp
      next
        case (Cons c2 r')
        with cr assms(5) have "c2 = CHR ''_'' \<Longrightarrow> c \<in> set r'" by auto
        with u u1 True Cons cr show ?thesis by (simp add: skip_prefix_def)
      qed
    qed
  qed
qed

lemma int16_bad_char:
  assumes c: "c \<in> set s" and bad: "c \<notin> set literal_chars"
  shows "int16 s = Inl ValueError"
proof -
  have nsp: "\<not> is_space c" and nlit: "\<not> is_literal_char c"
    and nsign: "c \<noteq> CHR ''-''" "c \<noteq> CHR ''+''"
    and npre: "c \<noteq> CHR ''0''" "c \<noteq> CHR ''x''" "c \<noteq> CHR ''X''" "c \<noteq> CHR ''_''"
    using bad by (auto simp: literal_chars_def is_space_def is_hex_digit_def is_literal_char_def)
  obtain sign u where su: "split_sign (dropWhile is_space s) = (sign, u)" by force
  have "c \<in> set (dropWhile is_space s)" using c nsp by (rule mem_dropWhile)
  then have "c \<in> set u" using mem_split_sign [OF _ nsign] su by fastforce
  then have "c \<in> set (skip_prefix u)" using npre by (rule mem_skip_prefix)
  then have "c \<in> set (dropWhile is_literal_char (skip_prefix u))" using nlit by (rule mem_dropWhile)
  then have "\<not> list_all is_space (dropWhile is_literal_char (skip_prefix u))"
    using nsp by (auto simp: list_all_iff)
  then show ?thesis by (simp add: int16_def su Let_def)
qed

lemma take6_slices: "take 6 h = take 2 h @ take 2 (drop 2 h) @ take 2 (drop 4 h)"
proof -
  have "take (2 + (2 + 2)) h = take 2 h @ take 2 (drop 2 h) @ take 2 (drop (2 + 2) h)"
    by (simp only: take_add drop_drop add.commute)
  then show ?thesis by simp
qed

lemma hex_channels_bad_char:
  assumes "i < 6" and "i < length (dropWhile (\<lambda>c. c = CHR ''#'') hex_color)"
    and "dropWhile (\<lambda>c. c = CHR ''#'') hex_color ! i \<notin> set literal_chars"
  shows "isl (hex_channels hex_color)"
proof -
  define h where "h = dropWhile (\<lambda>c. c = CHR ''#'') hex_color"
  have "i < length (take 6 h)" using assms(1,2) by (simp add: h_def)
  then have "take 6 h ! i \<in> set (take 6 h)" by (rule nth_mem)
  then have mem: "h ! i \<in> set (take 6 h)" using assms(1) by simp
  then have "h ! i \<in> set (take 2 h) \<or> h ! i \<in> set (take 2 (drop 2 h))
             \<or> h ! i \<in> set (take 2 (drop 4 h))"
    by (simp add: take6_slices [of h])
  then have "int16 (take 2 h) = Inl ValueError \<or> int16 (take 2 (drop 2 h)) = Inl ValueError
             \<or> int16 (take 2 (drop 4 h)) = Inl ValueError"
    using int16_bad_char assms(3) unfolding h_def by blast
  then show ?thesis
    unfolding hex_channels_def Let_def h_def [symmetric] by (auto split: sum.splits)
qed



section \<open>Properties of colour normalisation\<close>

subsection \<open>Stripping\<close>

lemma strip_append:
  assumes "a \<noteq> []" and "\<not> is_space (hd a)" and "\<not> is_space (last a)"
  shows "strip (a @ b) = a @ rev (dropWhile is_space (rev b))"
proof -
  have l: "dropWhile is_space (a @ b) = a @ b"
    using assms(1,2) by (simp add: dropWhile_eq_self_iff)
  have "last a \<in> set (rev a)" using assms(1) by simp
  then have "dropWhile is_space (rev a) = rev a"
    using assms(1,3) by (simp add: dropWhile_eq_self_iff hd_rev)
  then have "dropWhile is_space (rev b @ rev a) = dropWhile is_space (rev b) @ rev a"
    by (simp add: dropWhile_append)
  then show ?thesis by (simp add: strip_def l)
qed

lemma rstrip_hd:
  "rev (dropWhile is_space (rev b)) = [] \<or> hd (rev (dropWhile is_space (rev b))) = hd b"
proof -
  have "rev b = takeWhile is_space (rev b) @ dropWhile is_space (rev b)" by simp
  then have "rev (rev b) = rev (takeWhile is_space (rev b) @ dropWhile is_space (rev b))"
    by (rule arg_cong)
  then have "b = rev (dropWhile is_space (rev b)) @ rev (takeWhile is_space (rev b))"
    by (simp only: rev_rev_ident rev_append)
  then show ?thesis by (metis hd_append2)
qed

subsection \<open>Digit runs\<close>

lemma findall_digits_skip:
  "\<forall>c \<in> set p. \<not> is_digit c \<Longrightarrow> findall_digits (p @ s) = findall_digits s"
  by (induction p) simp_all

lemma findall_digits_run:
  assumes "d \<noteq> []" and "\<forall>c \<in> set d. is_digit c" and "s = [] \<or> \<not> is_digit (hd s)"
  shows "findall_digits (d @ s) = d # findall_digits s"
proof -
  obtain c cs where d: "d = c # cs" using assms(1) by (cases d) auto
  have cs: "\<And>x. x \<in> set cs \<Longrightarrow> is_digit x" using assms(2) d by simp
  have t: "takeWhile is_digit s = []" using assms(3) by (simp add: takeWhile_eq_Nil_iff)
  have dr: "dropWhile is_digit s = s" using assms(3) by (simp add: dropWhile_eq_self_iff)
  have "takeWhile is_digit (cs @ s) = cs" using cs t by simp
  moreover have "dropWhile is_digit (cs @ s) = s" using cs dr by simp
  ultimately show ?thesis using assms(2) d by simp
qed

subsection \<open>Decimal and hexadecimal digits\<close>

lemma lt16_cases:
  "d < 16 \<Longrightarrow> d \<in> set [0, 1, 2, 3, 4, 5, 6, 7, 8, 9, 10, 11, 12, 13, 14, 15::nat]"
  by simp arith

lemma hex_char_table:
  "list_all (\<lambda>d. is_upper_hex_digit (hex_char d) \<and> is_hex_digit (hex_char d)
                 \<and> digit_value (hex_char d) = d \<and> hex_char d \<noteq> CHR ''#''
                 \<and> \<not> is_space (hex_char d) \<and> is_literal_char (hex_char d)
                 \<and> hex_char d \<noteq> CHR ''-'' \<and> hex_char d \<noteq> CHR ''+''
                 \<and> hex_char d \<noteq> CHR ''x'' \<and> hex_char d \<noteq> CHR ''X''
                 \<and> hex_char d \<noteq> CHR ''_''
                 \<and> (d < 10 \<longrightarrow> is_digit (hex_char d)))
     [0, 1, 2, 3, 4, 5, 6, 7, 8, 9, 10, 11, 12, 13, 14, 15]"
  by (simp add: hex_char_def is_upper_hex_digit_def is_hex_digit_def digit_value_def
        lower_char_def ascii_uppercase_def ascii_lowercase_def is_digit_def is_space_def
        whitespace_def is_literal_char_def)

lemma hex_char_props:
  assumes "d < 16"
  shows "is_upper_hex_digit (hex_char d)" and "is_hex_digit (hex_char d)"
    and "digit_value (hex_char d) = d" and "hex_char d \<noteq> CHR ''#''"
    and "\<not> is_space (hex_char d)" and "is_literal_char (hex_char d)"
    and "hex_char d \<noteq> CHR ''-''" and "hex_char d \<noteq> CHR ''+''"
    and "hex_char d \<noteq> CHR ''x''" and "hex_char d \<noteq> CHR ''X''" and "hex_char d \<noteq> CHR ''_''"
    and "d < 10 \<Longrightarrow> is_digit (hex_char d)"
  using hex_char_table lt16_cases [OF assms] unfolding list_all_iff by blast+

lemma hex_char_decimal:
  assumes "d < 10"
  shows "is_digit (hex_char d)" and "digit_value (hex_char d) = d"
  using assms hex_char_props(3,12) [of d] by simp_all

lemma int_of_digits_snoc:
  "int_of_digits (ds @ [c]) = 10 * int_of_digits ds + digit_value c"
  by (simp add: int_of_digits_def)

lemma str_nat_props:
  "str_nat n \<noteq> [] \<and> (\<forall>c \<in> set (str_nat n). is_digit c) \<and> int_of_digits (str_nat n) = n"
proof (induction n rule: str_nat.induct)
  case (1 n)
  show ?case
  proof (cases "n < 10")
    case True
    then show ?thesis
      by (simp add: str_nat_small hex_char_decimal int_of_digits_def)
  next
    case False
    have m: "n mod 10 < 10" by simp
    from False 1 show ?thesis
      by (simp add: str_nat_large int_of_digits_snoc hex_char_decimal [OF m])
  qed
qed

lemma format_02X_byte:
  assumes "n \<le> 255"
  shows "format_02X n = [hex_char (n div 16), hex_char (n mod 16)]"
proof (cases "n < 16")
  case True
  then show ?thesis by (simp add: format_02X_def format_X_small hex_char_def)
next
  case False
  from assms have "n div 16 < 16" by simp
  with False show ?thesis by (simp add: format_02X_def format_X_large format_X_small)
qed

subsection \<open>Formatting and parsing back\<close>

lemma int16_two_digits:
  assumes "x < 16" and "y < 16"
  shows "int16 [hex_char x, hex_char y] = Inr (int (16 * x + y))"
  using hex_char_props [OF assms(1)] hex_char_props [OF assms(2)]
  by (simp add: int16_def split_sign_def skip_prefix_def)

lemma hex_channels_formatted:
  assumes "r \<le> 255" and "g \<le> 255" and "b \<le> 255"
  shows "hex_channels (CHR ''#'' # format_02X r @ format_02X g @ format_02X b)
           = Inr (int r, int g, int b)"
proof -
  have d: "r div 16 < 16" "r mod 16 < 16" "g div 16 < 16" "g mod 16 < 16"
    "b div 16 < 16" "b mod 16 < 16"
    using assms by simp_all
  have "hex_char (r div 16) \<noteq> CHR ''#''" using d(1) by (rule hex_char_props)
  then show ?thesis
    by (simp add: hex_channels_def format_02X_byte assms int16_two_digits d)
qed

lemma is_hex_color_formatted:
  assumes "r \<le> 255" and "g \<le> 255" and "b \<le> 255"
  shows "is_hex_color (CHR ''#'' # format_02X r @ format_02X g @ format_02X b)"
proof -
  have d: "r div 16 < 16" "r mod 16 < 16" "g div 16 < 16" "g mod 16 < 16"
    "b div 16 < 16" "b mod 16 < 16"
    using assms by simp_all
  show ?thesis
    by (simp add: is_hex_color_def format_02X_byte assms hex_char_props(1) d)
qed

lemma rgb_to_hex_digits:
  assumes "startswith color ''rgb''" and "findall_digits color = dr # dg # db # others"
  shows "rgb_to_hex color = Some (CHR ''#'' # format_02X (int_of_digits dr)
           @ format_02X (int_of_digits dg) @ format_02X (int_of_digits db))"
  using assms by (simp add: rgb_to_hex_def)

text \<open>
  Claim C6: for channels \<open>r\<close>, \<open>g\<close>, \<open>b\<close> of at most 255, written in decimal after
  \<open>rgb\<close> with separators that hold no digit (so \<open>rgb(r,g,b)\<close>, \<open>rgb(r, g, b)\<close> and
  \<open>rgba(r, g, b, a)\<close>, where whatever follows the third number does not begin with a
  digit), normalisation returns \<open>#\<close> and six upper-case hexadecimal digits, and parsing
  that string back in pairs of digits gives \<open>(r, g, b)\<close>.
\<close>

theorem rgb_string_roundtrip:
  assumes "r \<le> 255" and "g \<le> 255" and "b \<le> 255"
    and "list_all (\<lambda>c. \<not> is_digit c) (pre @ sep1 @ sep2)"
    and "sep1 \<noteq> []" and "sep2 \<noteq> []"
    and "post = [] \<or> \<not> is_digit (hd post)"
  shows "convert_to_hex names
           (''rgb'' @ pre @ str_nat r @ sep1 @ str_nat g @ sep2 @ str_nat b @ post)
           = Some (CHR ''#'' # format_02X r @ format_02X g @ format_02X b)
         \<and> is_hex_color (CHR ''#'' # format_02X r @ format_02X g @ format_02X b)
         \<and> hex_channels (CHR ''#'' # format_02X r @ format_02X g @ format_02X b)
             = Inr (int r, int g, int b)"
proof -
  let ?a = "''rgb'' @ pre @ str_nat r @ sep1 @ str_nat g @ sep2 @ str_nat b"
  define post' where "post' = rev (dropWhile is_space (rev post))"
  have nd: "\<forall>c \<in> set pre. \<not> is_digit c" "\<forall>c \<in> set sep1. \<not> is_digit c"
    "\<forall>c \<in> set sep2. \<not> is_digit c"
    using assms(4) by (auto simp: list_all_iff)
  have sr: "str_nat r \<noteq> []" "\<forall>c \<in> set (str_nat r). is_digit c" "int_of_digits (str_nat r) = r"
    using str_nat_props [of r] by simp_all
  have sg: "str_nat g \<noteq> []" "\<forall>c \<in> set (str_nat g). is_digit c" "int_of_digits (str_nat g) = g"
    using str_nat_props [of g] by simp_all
  have sb: "str_nat b \<noteq> []" "\<forall>c \<in> set (str_nat b). is_digit c" "int_of_digits (str_nat b) = b"
    using str_nat_props [of b] by simp_all
  have "last ?a = last (str_nat b)" using sb(1) by simp
  moreover have "is_digit (last (str_nat b))" using sb(1,2) by simp
  moreover have "\<not> is_space c" if "is_digit c" for c
    using that by (auto simp: is_digit_def is_space_def whitespace_def)
  ultimately have la: "\<not> is_space (last ?a)" by metis
  have ha: "\<not> is_space (hd ?a)" by (simp add: is_space_def whitespace_def)
  have "strip (?a @ post) = ?a @ post'"
    unfolding post'_def by (rule strip_append [OF _ ha la]) simp
  then have st: "strip (''rgb'' @ pre @ str_nat r @ sep1 @ str_nat g @ sep2 @ str_nat b @ post)
                  = ''rgb'' @ pre @ str_nat r @ sep1 @ str_nat g @ sep2 @ str_nat b @ post'"
    by simp
  have p': "post' = [] \<or> \<not> is_digit (hd post')"
    using rstrip_hd [of post] assms(7) unfolding post'_def by (cases "post = []") auto
  have h1: "sep1 @ str_nat g @ sep2 @ str_nat b @ post' = [] \<or>
            \<not> is_digit (hd (sep1 @ str_nat g @ sep2 @ str_nat b @ post'))"
    using assms(5) nd(2) by (cases sep1) auto
  have h2: "sep2 @ str_nat b @ post' = [] \<or> \<not> is_digit (hd (sep2 @ str_nat b @ post'))"
    using assms(6) nd(3) by (cases sep2) auto
  have rgbnd: "\<forall>c \<in> set (''rgb'' @ pre). \<not> is_digit c"
    using nd(1) by (auto simp: is_digit_def)
  have "findall_digits ((''rgb'' @ pre) @ str_nat r @ sep1 @ str_nat g @ sep2 @ str_nat b @ post')
          = findall_digits (str_nat r @ sep1 @ str_nat g @ sep2 @ str_nat b @ post')"
    using rgbnd by (rule findall_digits_skip)
  also have "\<dots> = str_nat r # findall_digits (sep1 @ str_nat g @ sep2 @ str_nat b @ post')"
    using sr(1,2) h1 by (rule findall_digits_run)
  also have "findall_digits (sep1 @ str_nat g @ sep2 @ str_nat b @ post')
          = findall_digits (str_nat g @ sep2 @ str_nat b @ post')"
    using nd(2) by (rule findall_digits_skip)
  also have "\<dots> = str_nat g # findall_digits (sep2 @ str_nat b @ post')"
    using sg(1,2) h2 by (rule findall_digits_run)
  also have "findall_digits (sep2 @ str_nat b @ post') = findall_digits (str_nat b @ post')"
    using nd(3) by (rule findall_digits_skip)
  also have "\<dots> = str_nat b # findall_digits post'"
    using sb(1,2) p' by (rule findall_digits_run)
  finally have fd: "findall_digits (''rgb'' @ pre @ str_nat r @ sep1 @ str_nat g @ sep2 @ str_nat b @ post')
     = str_nat r # str_nat g # str_nat b # findall_digits post'"
    by simp
  have sw: "startswith (''rgb'' @ pre @ str_nat r @ sep1 @ str_nat g @ sep2 @ str_nat b @ post') ''rgb''"
    by (simp add: startswith_def)
  have nh: "\<not> startswith (''rgb'' @ pre @ str_nat r @ sep1 @ str_nat g @ sep2 @ str_nat b @ post') ''#''"
    by (simp add: startswith_def)
  have "convert_to_hex names
           (''rgb'' @ pre @ str_nat r @ sep1 @ str_nat g @ sep2 @ str_nat b @ post)
           = Some (CHR ''#'' # format_02X r @ format_02X g @ format_02X b)"
    unfolding convert_to_hex_def st Let_def
    using nh rgb_to_hex_digits [OF sw fd] by (simp add: sr(3) sg(3) sb(3))
  then show ?thesis
    using hex_channels_formatted [OF assms(1-3)] is_hex_color_formatted [OF assms(1-3)] by simp
qed

theorem rgb_string_roundtrip_witness:
  "(0::nat) \<le> 255 \<and> (102::nat) \<le> 255 \<and> (204::nat) \<le> 255
   \<and> list_all (\<lambda>c. \<not> is_digit c) (''a('' @ '', '' @ '', '')
   \<and> '', '' \<noteq> [] \<and> \<not> is_digit (hd '', 0.5)'')
   \<and> convert_to_hex sample_names ''rgba(0, 102, 204, 0.5)'' = Some ''#0066CC''
   \<and> is_hex_color ''#0066CC''
   \<and> hex_channels ''#0066CC'' = Inr (0, 102, 204)"
proof -
  have a: "(0::nat) \<le> 255" "(102::nat) \<le> 255" "(204::nat) \<le> 255" by simp_all
  have b: "list_all (\<lambda>c. \<not> is_digit c) (''a('' @ '', '' @ '', '')"
    by (simp add: is_digit_def)
  have c: "'', '' \<noteq> []" by simp
  have d: "\<not> is_digit (hd '', 0.5)'')" by (simp add: is_digit_def)
  then have d': "'', 0.5)'' = [] \<or> \<not> is_digit (hd '', 0.5)'')" by (rule disjI2)
  have s: "str_nat 0 = ''0''" "str_nat 102 = ''102''" "str_nat 204 = ''204''"
    by (simp_all add: str_nat_small str_nat_large hex_char_def)
  have f: "format_02X 0 = ''00''" "format_02X 102 = ''66''" "format_02X 204 = ''CC''"
    by (simp_all add: format_02X_def format_X_small format_X_large hex_char_def)
  from rgb_string_roundtrip [OF a b c c d', of sample_names] a b c d
  show ?thesis by (simp add: s f)
qed

subsection \<open>Format of a normalised colour\<close>

text \<open>
  Claim C3, as stated, does not hold: a string starting with \<open>#\<close> is returned in upper
  case whatever its length, and a channel above 255 is written with three hexadecimal
  digits.
\<close>

theorem convert_to_hex_format_counterexample:
  "convert_to_hex sample_names ''#abc'' = Some ''#ABC'' \<and> \<not> is_hex_color ''#ABC''
   \<and> convert_to_hex sample_names ''rgb(256, 0, 0)'' = Some ''#1000000''
   \<and> \<not> is_hex_color ''#1000000''"
  by (simp add: norm_defs upper_def upper_char_def is_hex_color_def)

lemma upper_char_table:
  "list_all (\<lambda>c. is_upper_hex_digit (upper_char c)) ''0123456789abcdefABCDEF''"
  by (simp add: is_upper_hex_digit_def upper_char_def ascii_uppercase_def ascii_lowercase_def)

lemma upper_char_hex_digit: "is_hex_digit c \<Longrightarrow> is_upper_hex_digit (upper_char c)"
  using upper_char_table unfolding list_all_iff is_hex_digit_def by blast

lemma upper_hex6:
  assumes "is_hex6 v"
  shows "is_hex_color (upper v)"
proof -
  obtain ds where v: "v = CHR ''#'' # ds" and l: "length ds = 6" and h: "list_all is_hex_digit ds"
    using assms by (auto simp: is_hex6_def split: list.splits)
  from h have "list_all is_upper_hex_digit (map upper_char ds)"
    by (auto simp: list_all_iff upper_char_hex_digit)
  moreover have "upper_char CHR ''#'' = CHR ''#''"
    by (simp add: upper_char_def ascii_uppercase_def ascii_lowercase_def)
  ultimately show ?thesis using v l by (simp add: is_hex_color_def upper_def)
qed

lemma rgb_to_hex_format:
  assumes "rgb_to_hex color = Some h"
    and "list_all (\<lambda>d. int_of_digits d \<le> 255) (take 3 (findall_digits color))"
  shows "is_hex_color h"
proof -
  from assms(1) have len: "3 \<le> length (findall_digits color)"
    by (auto simp: rgb_to_hex_def Let_def split: if_splits)
  then obtain dr dg db others where fd: "findall_digits color = dr # dg # db # others"
    by (metis Suc_le_length_iff numeral_3_eq_3)
  with assms(2) have le: "int_of_digits dr \<le> 255" "int_of_digits dg \<le> 255" "int_of_digits db \<le> 255"
    by (simp_all add: numeral_3_eq_3)
  from assms(1) fd have "h = CHR ''#'' # format_02X (int_of_digits dr)
           @ format_02X (int_of_digits dg) @ format_02X (int_of_digits db)"
    by (auto simp: rgb_to_hex_def Let_def split: if_splits)
  then show ?thesis using is_hex_color_formatted [OF le] by simp
qed

lemma rgb_to_hex_startswith: "rgb_to_hex color = Some h \<Longrightarrow> startswith color ''rgb''"
  by (auto simp: rgb_to_hex_def split: if_splits)

text \<open>
  Claim C3, amended: a result of normalisation is \<open>#\<close> followed by six upper-case
  hexadecimal digits whenever the stripped input, if it starts with \<open>#\<close>, is \<open>#\<close> and
  six hexadecimal digits; if it starts with \<open>rgb\<close>, has its first three numbers at most
  255; and the table of colour names holds only values of the shape \<open>#\<close> and six
  hexadecimal digits.
\<close>

theorem convert_to_hex_format:
  assumes "convert_to_hex names raw = Some h"
    and "startswith (strip raw) ''#'' \<longrightarrow> is_hex6 (strip raw)"
    and "startswith (strip raw) ''rgb'' \<longrightarrow>
           list_all (\<lambda>d. int_of_digits d \<le> 255) (take 3 (findall_digits (strip raw)))"
    and "\<forall>name v. names name = Some v \<longrightarrow> is_hex6 v"
  shows "is_hex_color h"
proof (cases "startswith (strip raw) ''#''")
  case True
  with assms(1) have "h = upper (strip raw)" by (simp add: convert_to_hex_def)
  with True assms(2) show ?thesis by (simp add: upper_hex6)
next
  case False
  show ?thesis
  proof (cases "rgb_to_hex (strip raw)")
    case (Some h')
    with False assms(1) have "h = h'" by (simp add: convert_to_hex_def)
    with Some assms(3) rgb_to_hex_startswith [OF Some] show ?thesis
      by (simp add: rgb_to_hex_format)
  next
    case None
    with False assms(1) obtain v where "names (strip raw) = Some v" "h = upper v"
      by (auto simp: convert_to_hex_def split: option.splits)
    with assms(4) show ?thesis by (simp add: upper_hex6)
  qed
qed

lemma sample_names_hex6: "\<forall>name v. sample_names name = Some v \<longrightarrow> is_hex6 v"
  by (auto simp: sample_names_def is_hex6_def is_hex_digit_def split: if_splits)

theorem convert_to_hex_format_witness:
  "convert_to_hex sample_names '' #0066cc'' = Some ''#0066CC'' \<and> is_hex6 (strip '' #0066cc'')
   \<and> is_hex_color ''#0066CC''
   \<and> convert_to_hex sample_names ''rgb(51, 102, 255)'' = Some ''#3366FF''
   \<and> list_all (\<lambda>d. int_of_digits d \<le> 255) (take 3 (findall_digits (strip ''rgb(51, 102, 255)'')))
   \<and> is_hex_color ''#3366FF''
   \<and> convert_to_hex sample_names '' Navy '' = Some ''#000080''
   \<and> sample_names (strip '' Navy '') = Some ''#000080'' \<and> is_hex6 ''#000080''
   \<and> is_hex_color ''#000080''"
proof -
  have s: "strip '' #0066cc'' = ''#0066cc''" "strip ''rgb(51, 102, 255)'' = ''rgb(51, 102, 255)''"
    "strip '' Navy '' = ''Navy''"
    by (simp_all add: strip_def is_space_def whitespace_def)
  have a1: "convert_to_hex sample_names '' #0066cc'' = Some ''#0066CC''"
    by (simp add: norm_defs upper_def upper_char_def)
  have b1: "startswith (strip '' #0066cc'') ''#'' \<longrightarrow> is_hex6 (strip '' #0066cc'')"
    by (simp add: s is_hex6_def is_hex_digit_def)
  have c1: "startswith (strip '' #0066cc'') ''rgb'' \<longrightarrow>
         list_all (\<lambda>d. int_of_digits d \<le> 255) (take 3 (findall_digits (strip '' #0066cc'')))"
    by (simp add: s startswith_def)
  have a2: "convert_to_hex sample_names ''rgb(51, 102, 255)'' = Some ''#3366FF''"
    by (simp add: norm_defs)
  have b2: "startswith (strip ''rgb(51, 102, 255)'') ''#'' \<longrightarrow> is_hex6 (strip ''rgb(51, 102, 255)'')"
    by (simp add: s startswith_def)
  have c2: "list_all (\<lambda>d. int_of_digits d \<le> 255)
              (take 3 (findall_digits (strip ''rgb(51, 102, 255)'')))"
    by (simp add: s is_digit_def int_of_digits_def digit_value_def lower_char_def
          ascii_uppercase_def ascii_lowercase_def)
  have a3: "convert_to_hex sample_names '' Navy '' = Some ''#000080''"
    by (simp add: norm_defs upper_def upper_char_def lower_def sample_names_def)
  have b3: "startswith (strip '' Navy '') ''#'' \<longrightarrow> is_hex6 (strip '' Navy '')"
    by (simp add: s startswith_def)
  have c3: "startswith (strip '' Navy '') ''rgb'' \<longrightarrow>
         list_all (\<lambda>d. int_of_digits d \<le> 255) (take 3 (findall_digits (strip '' Navy '')))"
    by (simp add: s startswith_def)
  have n3: "sample_names (strip '' Navy '') = Some ''#000080''"
    by (simp add: s sample_names_def case_defs)
  have h3: "is_hex6 ''#000080''" using sample_names_hex6 n3 by blast
  have h1: "is_hex6 (strip '' #0066cc'')" using b1 by (simp add: s startswith_def)
  from convert_to_hex_format [OF a1 b1 c1 sample_names_hex6]
    convert_to_hex_format [OF a2 b2 _ sample_names_hex6]
    convert_to_hex_format [OF a3 b3 c3 sample_names_hex6]
    a1 a2 a3 c2 n3 h1 h3
  show ?thesis by blast
qed

end
